theory Spec2Isabelle
  imports Complex_Main
begin

section \<open>Values, errors and imported tables\<close>

text \<open>
  The verifier of \<^verbatim>\<open>sdk/core/src/SelfBackendVerifier.ts\<close> is a class whose
  methods mutate \<^verbatim>\<open>this\<close> and whose \<^verbatim>\<open>verify\<close> awaits three contract calls.
  The model passes the object explicitly, returns it updated from every setter, and
  turns each \<^verbatim>\<open>throw\<close> and each rejected promise into the left injection of a sum.
\<close>

datatype error =
    Error string  \<comment> \<open>\<^verbatim>\<open>new Error(msg)\<close>, and whatever a collaborator throws\<close>
  | TypeError     \<comment> \<open>reading a property of \<^verbatim>\<open>undefined\<close> or \<^verbatim>\<open>null\<close>\<close>

datatype js_value =
    Undefined
  | Null
  | Str string
  | BigIntV int
  | Bool bool
  | Arr "string list"

text \<open>
  \<^verbatim>\<open>xs[i]\<close> on an array: the element, or \<^verbatim>\<open>undefined\<close> past the end.
\<close>

definition str_at :: "string list \<Rightarrow> nat \<Rightarrow> js_value" where
  "str_at xs i = (if i < length xs then Str (xs ! i) else Undefined)"

definition val_at :: "js_value list \<Rightarrow> nat \<Rightarrow> js_value" where
  "val_at xs i = (if i < length xs then xs ! i else Undefined)"

text \<open>
  Decimal rendering of an integer, as \<^verbatim>\<open>toString()\<close> gives it on a bigint and on a
  number that holds a safe integer. The field \<^verbatim>\<open>attestationId\<close>, initialised to 1
  and never assigned, is kept as an integer.
\<close>

function digits :: "nat \<Rightarrow> string" where
  "digits n =
     (if n < 10 then [''0123456789'' ! n]
      else digits (n div 10) @ [''0123456789'' ! (n mod 10)])"
  by pat_completeness auto
termination
  by (relation "measure id") auto

definition Number_toString :: "int \<Rightarrow> string" where
  "Number_toString i = (if i < 0 then CHR ''-'' # digits (nat (- i)) else digits (nat i))"

text \<open>
  A \<^verbatim>\<open>number\<close> argument is any double: a finite value, \<^verbatim>\<open>NaN\<close> or one of the two
  infinities. Finite doubles are real numbers, so the model lets every real stand for
  one (the two zeros coincide; both compare and print as zero).
\<close>

datatype number = Num real | NaN | Infinity | NegInfinity

text \<open>
  The operators \<^verbatim>\<open><=\<close> and \<^verbatim>\<open>>\<close> on numbers: every comparison with \<^verbatim>\<open>NaN\<close> is
  false, the infinities sit at the two ends.
\<close>

fun js_le :: "number \<Rightarrow> number \<Rightarrow> bool" where
  "js_le NaN y = False"
| "js_le x NaN = False"
| "js_le (Num x) (Num y) = (x \<le> y)"
| "js_le NegInfinity y = True"
| "js_le x Infinity = True"
| "js_le Infinity y = False"
| "js_le x NegInfinity = False"

fun js_gt :: "number \<Rightarrow> number \<Rightarrow> bool" where
  "js_gt NaN y = False"
| "js_gt x NaN = False"
| "js_gt (Num x) (Num y) = (x > y)"
| "js_gt x Infinity = False"
| "js_gt Infinity y = True"
| "js_gt NegInfinity y = False"
| "js_gt x NegInfinity = True"

text \<open>
  \<^verbatim>\<open>n.toString()\<close> on a number: the three special values print by name, a safe
  integer (magnitude at most \<open>2 ^ 53\<close>) prints its decimal digits. The digits of any
  other finite value (a fraction, a larger magnitude) are those of the language's
  shortest round-trip rendering, which is not part of this file: it is the parameter
  \<open>render\<close>.
\<close>

fun toString_number :: "(real \<Rightarrow> string) \<Rightarrow> number \<Rightarrow> string" where
  "toString_number render NaN = ''NaN''"
| "toString_number render Infinity = ''Infinity''"
| "toString_number render NegInfinity = ''-Infinity''"
| "toString_number render (Num r) =
     (if r = of_int \<lfloor>r\<rfloor> \<and> \<bar>r\<bar> \<le> 2 ^ 53 then Number_toString \<lfloor>r\<rfloor> else render r)"

fun join_comma :: "string list \<Rightarrow> string" where
  "join_comma [] = []"
| "join_comma [x] = x"
| "join_comma (x # y # ys) = x @ CHR '','' # join_comma (y # ys)"

text \<open>
  \<^verbatim>\<open>v.toString()\<close> on a value of unknown type: a method call on \<^verbatim>\<open>undefined\<close>
  or \<^verbatim>\<open>null\<close> throws a TypeError.
\<close>

fun toString :: "js_value \<Rightarrow> error + string" where
  "toString Undefined = Inl TypeError"
| "toString Null = Inl TypeError"
| "toString (Str s) = Inr s"
| "toString (BigIntV n) = Inr (Number_toString n)"
| "toString (Bool b) = Inr (if b then ''true'' else ''false'')"
| "toString (Arr xs) = Inr (join_comma xs)"

text \<open>
  The two tables imported from \<^verbatim>\<open>common/src/constants/constants\<close> are not part of
  the file; they are parameters of the model. Only the entries the class reads appear.
\<close>

record CIRCUIT_CONSTANTS =
  VC_AND_DISCLOSE_SCOPE_INDEX :: nat
  VC_AND_DISCLOSE_ATTESTATION_ID_INDEX :: nat
  VC_AND_DISCLOSE_USER_IDENTIFIER_INDEX :: nat
  VC_AND_DISCLOSE_NULLIFIER_INDEX :: nat
  VC_AND_DISCLOSE_MERKLE_ROOT_INDEX :: nat

record revealedDataTypes =
  issuing_state :: nat
  name :: nat
  passport_number :: nat
  nationality :: nat
  date_of_birth :: nat
  gender :: nat
  expiry_date :: nat
  older_than :: nat
  passport_no_ofac :: nat
  name_and_dob_ofac :: nat
  name_and_yob_ofac :: nat

text \<open>
  Modelled from the spec: the type \<^verbatim>\<open>UserIdType\<close> of \<^verbatim>\<open>common/src/utils/circuits/uuid\<close>
  is missing; the spec gives it as an enumeration of \<^verbatim>\<open>uuid\<close> and the other
  identifier encodings.
\<close>

datatype UserIdType = uuid | hex

section \<open>The object\<close>

record 'a check =
  enabled :: bool
  val :: 'a  \<comment> \<open>the field \<^verbatim>\<open>value\<close>\<close>

record SelfBackendVerifier =
  scope :: string
  attestationId :: int
  user_identifier_type :: UserIdType
  targetRootTimestamp :: "int check"
  nationality_check :: "string check"  \<comment> \<open>the field \<^verbatim>\<open>nationality\<close>\<close>
  minimumAge :: "string check"
  excludedCountries :: "string list check"
  passportNoOfac :: bool
  nameAndDobOfac :: bool
  nameAndYobOfac :: bool
  mockPassport :: bool

text \<open>
  The constructor (lines 60-75) with the field initialisers of lines 26-54. The scope
  hash comes from the imported \<^verbatim>\<open>hashEndpointWithScope\<close>, a parameter here. The two
  contract handles it creates are the capabilities of the next section.
\<close>

definition new_SelfBackendVerifier ::
  "(string \<Rightarrow> string \<Rightarrow> string) \<Rightarrow> string \<Rightarrow> string \<Rightarrow> UserIdType \<Rightarrow> bool \<Rightarrow> SelfBackendVerifier"
where
  "new_SelfBackendVerifier hashEndpointWithScope scope0 endpoint uit mock =
     \<lparr> scope = hashEndpointWithScope endpoint scope0,
       attestationId = 1,
       user_identifier_type = uit,
       targetRootTimestamp = \<lparr> enabled = False, val = 0 \<rparr>,
       nationality_check = \<lparr> enabled = False, val = [] \<rparr>,
       minimumAge = \<lparr> enabled = False, val = ''18'' \<rparr>,
       excludedCountries = \<lparr> enabled = False, val = [] \<rparr>,
       passportNoOfac = False,
       nameAndDobOfac = False,
       nameAndYobOfac = False,
       mockPassport = mock \<rparr>"

subsection \<open>Setters (lines 211-248)\<close>

text \<open>
  \<^verbatim>\<open>setMinimumAge\<close> compares its argument as it comes: there is no test that it is
  an integer, and \<^verbatim>\<open>NaN\<close> fails neither comparison.
\<close>

definition setMinimumAge ::
  "(real \<Rightarrow> string) \<Rightarrow> number \<Rightarrow> SelfBackendVerifier \<Rightarrow> error + SelfBackendVerifier"
where
  "setMinimumAge render age this =
     (if js_le age (Num 0) then Inl (Error ''Minimum age must be positive'')
      else if js_gt age (Num 100) then Inl (Error ''Minimum age must be at most 100 years old'')
      else Inr (this\<lparr> minimumAge := \<lparr> enabled = True, val = toString_number render age \<rparr> \<rparr>))"

definition setNationality :: "string \<Rightarrow> SelfBackendVerifier \<Rightarrow> SelfBackendVerifier" where
  "setNationality country this =
     this\<lparr> nationality_check := \<lparr> enabled = True, val = country \<rparr> \<rparr>"

definition excludeCountries :: "string list \<Rightarrow> SelfBackendVerifier \<Rightarrow> error + SelfBackendVerifier" where
  "excludeCountries countries this =
     (if length countries > 40 then Inl (Error ''Number of excluded countries cannot exceed 40'')
      else Inr (this\<lparr> excludedCountries := \<lparr> enabled = True, val = countries \<rparr> \<rparr>))"

definition enablePassportNoOfacCheck :: "SelfBackendVerifier \<Rightarrow> SelfBackendVerifier" where
  "enablePassportNoOfacCheck this = this\<lparr> passportNoOfac := True \<rparr>"

definition enableNameAndDobOfacCheck :: "SelfBackendVerifier \<Rightarrow> SelfBackendVerifier" where
  "enableNameAndDobOfacCheck this = this\<lparr> nameAndDobOfac := True \<rparr>"

definition enableNameAndYobOfacCheck :: "SelfBackendVerifier \<Rightarrow> SelfBackendVerifier" where
  "enableNameAndYobOfacCheck this = this\<lparr> nameAndYobOfac := True \<rparr>"

section \<open>Verification\<close>

subsection \<open>Collaborators\<close>

text \<open>
  What \<^verbatim>\<open>verify\<close> calls and does not define: the country-list packer, the two
  Registry reads, the Verifier call, the user-identifier decoding with the
  \<^verbatim>\<open>BigInt\<close> conversion in front of it, and the clock. Each call that can throw or
  reject returns a sum. The Verifier's response is the triple \<^verbatim>\<open>result[0]\<close>,
  \<^verbatim>\<open>result[1]\<close>, \<^verbatim>\<open>result[2]\<close>.
\<close>

record snark_proof =
  proof_a :: "string list"       \<comment> \<open>\<^verbatim>\<open>proof.a\<close>\<close>
  proof_b :: "string list list"  \<comment> \<open>\<^verbatim>\<open>proof.b\<close>\<close>
  proof_c :: "string list"       \<comment> \<open>\<^verbatim>\<open>proof.c\<close>\<close>

record vcAndDiscloseProof_t =
  vc_a :: "string list"
  vc_b :: "js_value list list"
  vc_c :: "string list"
  pubSignals :: "string list"

record hub_proof =
  olderThanEnabled :: bool
  olderThan :: string
  forbiddenCountriesEnabled :: bool
  forbiddenCountriesListPacked :: "string list"
  ofacEnabled :: "bool list"
  vcAndDiscloseProof :: vcAndDiscloseProof_t

record verifyAll_result =
  result_0 :: "js_value list"  \<comment> \<open>decoded fields, indexed by \<^verbatim>\<open>revealedDataTypes\<close>\<close>
  result_1 :: bool             \<comment> \<open>structural validity\<close>
  result_2 :: js_value         \<comment> \<open>the response's own error slot\<close>

record collaborators =
  packForbiddenCountriesList :: "string list \<Rightarrow> error + string list"
  getIdentityCommitmentMerkleRoot :: "error + int"
  rootTimestamps :: "int \<Rightarrow> error + int"
  toBigInt :: "js_value \<Rightarrow> error + int"  \<comment> \<open>\<^verbatim>\<open>BigInt(v)\<close>\<close>
  castToUserIdentifier :: "int \<Rightarrow> UserIdType \<Rightarrow> error + string"
  verifyAll :: "int \<Rightarrow> hub_proof \<Rightarrow> nat list \<Rightarrow> error + verifyAll_result"
  toISOString_now :: string  \<comment> \<open>\<^verbatim>\<open>new Date().toISOString()\<close>\<close>

subsection \<open>The outcome\<close>

record isValidDetails_t =
  isValidScope :: bool
  isValidAttestationId :: bool
  isValidProof :: bool
  isValidNationality :: bool

record proof_value =
  value_proof :: snark_proof
  value_publicSignals :: "string list"

text \<open>
  \<^verbatim>\<open>credentialSubject\<close> is an object literal: its keys in insertion order, \<^verbatim>\<open>{}\<close>
  the empty list. The field \<^verbatim>\<open>error\<close> holds either what the Verifier call threw
  (left) or the response's error slot (right).
\<close>

record SelfVerificationResult =
  isValid :: bool
  isValidDetails :: isValidDetails_t
  userId :: string
  application :: string
  nullifier :: js_value
  credentialSubject :: "(string \<times> js_value) list"
  proof_field :: proof_value  \<comment> \<open>the field \<^verbatim>\<open>proof\<close>, holding \<^verbatim>\<open>value\<close>\<close>
  error_field :: "error + js_value"  \<comment> \<open>the field \<^verbatim>\<open>error\<close>\<close>

subsection \<open>Building the request (lines 78-136)\<close>

text \<open>
  Lines 87-102. \<^verbatim>\<open>proof.b[0][1]\<close> throws when the row \<^verbatim>\<open>proof.b[0]\<close> is missing and
  is \<^verbatim>\<open>undefined\<close> when only the column is.
\<close>

definition vcAndDiscloseHubProof ::
  "SelfBackendVerifier \<Rightarrow> string list \<Rightarrow> snark_proof \<Rightarrow> string list \<Rightarrow> error + hub_proof"
where
  "vcAndDiscloseHubProof this packed proof publicSignals =
     (if length (proof_b proof) < 2 then Inl TypeError
      else Inr
        \<lparr> olderThanEnabled = enabled (minimumAge this),
          olderThan = val (minimumAge this),
          forbiddenCountriesEnabled = enabled (excludedCountries this),
          forbiddenCountriesListPacked = packed,
          ofacEnabled = [passportNoOfac this, nameAndDobOfac this, nameAndYobOfac this],
          vcAndDiscloseProof =
            \<lparr> vc_a = proof_a proof,
              vc_b =
                [[str_at (proof_b proof ! 0) 1, str_at (proof_b proof ! 0) 0],
                 [str_at (proof_b proof ! 1) 1, str_at (proof_b proof ! 1) 0]],
              vc_c = proof_c proof,
              pubSignals = publicSignals \<rparr> \<rparr>)"

text \<open>Lines 104-128: the array literal, then one \<^verbatim>\<open>push\<close> per enabled check.\<close>

definition types :: "revealedDataTypes \<Rightarrow> SelfBackendVerifier \<Rightarrow> nat list" where
  "types rdt this =
     (let t0 = [issuing_state rdt, name rdt, passport_number rdt, nationality rdt,
                date_of_birth rdt, gender rdt, expiry_date rdt];
          t1 = (if enabled (minimumAge this) then t0 @ [older_than rdt] else t0);
          t2 = (if passportNoOfac this then t1 @ [passport_no_ofac rdt] else t1);
          t3 = (if nameAndDobOfac this then t2 @ [name_and_dob_ofac rdt] else t2);
          t4 = (if nameAndYobOfac this then t3 @ [name_and_yob_ofac rdt] else t3)
      in t4)"

text \<open>
  Everything \<^verbatim>\<open>verify\<close> does before the Verifier call, in the order of the source:
  packing (78), the payload (87-102), the field list (104-128), the two Registry reads
  (130-131), the user identifier (133-136). The first failure ends the call.
\<close>

record request =
  rq_timestamp :: int
  rq_proof :: hub_proof
  rq_types :: "nat list"
  rq_user_identifier :: string

definition verification_request ::
  "CIRCUIT_CONSTANTS \<Rightarrow> revealedDataTypes \<Rightarrow> collaborators \<Rightarrow> SelfBackendVerifier \<Rightarrow>
   snark_proof \<Rightarrow> string list \<Rightarrow> error + request"
where
  "verification_request cc rdt env this proof publicSignals =
     (case packForbiddenCountriesList env (val (excludedCountries this)) of
        Inl e \<Rightarrow> Inl e
      | Inr packed \<Rightarrow>
     (case vcAndDiscloseHubProof this packed proof publicSignals of
        Inl e \<Rightarrow> Inl e
      | Inr hub \<Rightarrow>
     (case getIdentityCommitmentMerkleRoot env of
        Inl e \<Rightarrow> Inl e
      | Inr currentRoot \<Rightarrow>
     (case rootTimestamps env currentRoot of
        Inl e \<Rightarrow> Inl e
      | Inr timestamp \<Rightarrow>
     (case toBigInt env (str_at publicSignals (VC_AND_DISCLOSE_USER_IDENTIFIER_INDEX cc)) of
        Inl e \<Rightarrow> Inl e
      | Inr n \<Rightarrow>
     (case castToUserIdentifier env n (user_identifier_type this) of
        Inl e \<Rightarrow> Inl e
      | Inr user_identifier \<Rightarrow>
          Inr \<lparr> rq_timestamp = timestamp, rq_proof = hub, rq_types = types rdt this,
                rq_user_identifier = user_identifier \<rparr>))))))"

subsection \<open>Reading the response (lines 164-208)\<close>

text \<open>
  Lines 170-185. The four \<^verbatim>\<open>toString()\<close> calls run in the order of the literal; the
  first one on a missing entry throws.
\<close>

definition credentialSubject_of ::
  "CIRCUIT_CONSTANTS \<Rightarrow> revealedDataTypes \<Rightarrow> collaborators \<Rightarrow> SelfBackendVerifier \<Rightarrow>
   string list \<Rightarrow> verifyAll_result \<Rightarrow> error + (string \<times> js_value) list"
where
  "credentialSubject_of cc rdt env this publicSignals result =
     (case toString (val_at (result_0 result) (older_than rdt)) of
        Inl e \<Rightarrow> Inl e
      | Inr s_older \<Rightarrow>
     (case toString (val_at (result_0 result) (passport_no_ofac rdt)) of
        Inl e \<Rightarrow> Inl e
      | Inr s_pass \<Rightarrow>
     (case toString (val_at (result_0 result) (name_and_dob_ofac rdt)) of
        Inl e \<Rightarrow> Inl e
      | Inr s_dob \<Rightarrow>
     (case toString (val_at (result_0 result) (name_and_yob_ofac rdt)) of
        Inl e \<Rightarrow> Inl e
      | Inr s_yob \<Rightarrow>
          Inr
           [(''merkle_root'', str_at publicSignals (VC_AND_DISCLOSE_MERKLE_ROOT_INDEX cc)),
            (''attestation_id'', Str (Number_toString (attestationId this))),
            (''current_date'', Str (toISOString_now env)),
            (''issuing_state'', val_at (result_0 result) (issuing_state rdt)),
            (''name'', val_at (result_0 result) (name rdt)),
            (''passport_number'', val_at (result_0 result) (passport_number rdt)),
            (''nationality'', val_at (result_0 result) (nationality rdt)),
            (''date_of_birth'', val_at (result_0 result) (date_of_birth rdt)),
            (''gender'', val_at (result_0 result) (gender rdt)),
            (''expiry_date'', val_at (result_0 result) (expiry_date rdt)),
            (''older_than'', Str s_older),
            (''passport_no_ofac'', Bool (s_pass = ''1'')),
            (''name_and_dob_ofac'', Bool (s_dob = ''1'')),
            (''name_and_yob_ofac'', Bool (s_yob = ''1''))]))))"

text \<open>
  Lines 80-85 and 138-208: the two local checks, the \<^verbatim>\<open>try\<close> around the Verifier
  call (its result is the last argument here: left when the call threw), the
  nationality check, the decoding, the outcome. What the Verifier call throws becomes
  a returned outcome; what the decoding throws leaves the function.
  \<^verbatim>\<open>s === v\<close> with \<open>s\<close> a string holds exactly when \<open>v\<close> is that string.
\<close>

definition attestation ::
  "CIRCUIT_CONSTANTS \<Rightarrow> revealedDataTypes \<Rightarrow> collaborators \<Rightarrow> SelfBackendVerifier \<Rightarrow>
   snark_proof \<Rightarrow> string list \<Rightarrow> string \<Rightarrow> error + verifyAll_result \<Rightarrow>
   error + SelfVerificationResult"
where
  "attestation cc rdt env this proof publicSignals user_identifier called =
     (let isValidScope0 =
            (Str (scope this) = str_at publicSignals (VC_AND_DISCLOSE_SCOPE_INDEX cc));
          isValidAttestationId0 =
            (Str (Number_toString (attestationId this)) =
             str_at publicSignals (VC_AND_DISCLOSE_ATTESTATION_ID_INDEX cc))
      in
      case called of
        Inl err \<Rightarrow>
          Inr \<lparr> isValid = False,
                isValidDetails =
                  \<lparr> isValidScope = False, isValidAttestationId = False,
                    isValidProof = False, isValidNationality = False \<rparr>,
                userId = user_identifier,
                application = scope this,
                nullifier = str_at publicSignals (VC_AND_DISCLOSE_NULLIFIER_INDEX cc),
                credentialSubject = [],
                proof_field = \<lparr> value_proof = proof, value_publicSignals = publicSignals \<rparr>,
                error_field = Inl err \<rparr>
      | Inr result \<Rightarrow>
          (let isValidNationality0 =
                 (if enabled (nationality_check this)
                  then val_at (result_0 result) (nationality rdt) =
                       Str (val (nationality_check this))
                  else True)
           in
           case credentialSubject_of cc rdt env this publicSignals result of
             Inl e \<Rightarrow> Inl e
           | Inr subject \<Rightarrow>
               Inr \<lparr> isValid =
                       (result_1 result \<and> isValidScope0 \<and> isValidAttestationId0 \<and>
                        isValidNationality0),
                     isValidDetails =
                       \<lparr> isValidScope = isValidScope0,
                         isValidAttestationId = isValidAttestationId0,
                         isValidProof = result_1 result,
                         isValidNationality = isValidNationality0 \<rparr>,
                     userId = user_identifier,
                     application = scope this,
                     nullifier = str_at publicSignals (VC_AND_DISCLOSE_NULLIFIER_INDEX cc),
                     credentialSubject = subject,
                     proof_field = \<lparr> value_proof = proof, value_publicSignals = publicSignals \<rparr>,
                     error_field = Inr (result_2 result) \<rparr>))"

text \<open>
  \<^verbatim>\<open>verify\<close> (lines 77-209): build the request, call the Verifier with the root's
  timestamp, the payload and the field list, read what comes back.
\<close>

definition verify ::
  "CIRCUIT_CONSTANTS \<Rightarrow> revealedDataTypes \<Rightarrow> collaborators \<Rightarrow> SelfBackendVerifier \<Rightarrow>
   snark_proof \<Rightarrow> string list \<Rightarrow> error + SelfVerificationResult"
where
  "verify cc rdt env this proof publicSignals =
     (case verification_request cc rdt env this proof publicSignals of
        Inl e \<Rightarrow> Inl e
      | Inr rq \<Rightarrow>
          attestation cc rdt env this proof publicSignals (rq_user_identifier rq)
            (verifyAll env (rq_timestamp rq) (rq_proof rq) (rq_types rq)))"

subsection \<open>A sample deployment\<close>

text \<open>
  Concrete tables, collaborators and inputs on which the theorems below are
  instantiated. The index values are those of a small layout, not the production one;
  the Verifier answers every call with the same decoded passport.
\<close>

definition sample_constants :: CIRCUIT_CONSTANTS where
  "sample_constants =
     \<lparr> VC_AND_DISCLOSE_SCOPE_INDEX = 3,
       VC_AND_DISCLOSE_ATTESTATION_ID_INDEX = 1,
       VC_AND_DISCLOSE_USER_IDENTIFIER_INDEX = 4,
       VC_AND_DISCLOSE_NULLIFIER_INDEX = 0,
       VC_AND_DISCLOSE_MERKLE_ROOT_INDEX = 2 \<rparr>"

definition sample_types :: revealedDataTypes where
  "sample_types =
     \<lparr> issuing_state = 0, name = 1, passport_number = 2, nationality = 3,
       date_of_birth = 4, gender = 5, expiry_date = 6, older_than = 7,
       passport_no_ofac = 8, name_and_dob_ofac = 9, name_and_yob_ofac = 10 \<rparr>"

definition sample_result :: verifyAll_result where
  "sample_result =
     \<lparr> result_0 =
         [Str ''FRA'', Arr [''DUPONT'', ''ALPHONSE''], Str ''15AA81234'', Str ''USA'',
          Str ''31-01-94'', Str ''M'', Str ''31-10-40'', BigIntV 18, BigIntV 1,
          BigIntV 0, BigIntV 1],
       result_1 = True,
       result_2 = Str [] \<rparr>"

definition sample_env :: collaborators where
  "sample_env =
     \<lparr> packForbiddenCountriesList = (\<lambda>countries. Inr [concat countries]),
       getIdentityCommitmentMerkleRoot = Inr 77,
       rootTimestamps = (\<lambda>root. Inr 1700000000),
       toBigInt = (\<lambda>v. case v of Str s \<Rightarrow> Inr 5 | _ \<Rightarrow> Inl TypeError),
       castToUserIdentifier = (\<lambda>n t. Inr ''user-5''),
       verifyAll = (\<lambda>timestamp hub tys. Inr sample_result),
       toISOString_now = ''2025-01-01T00:00:00.000Z'' \<rparr>"

definition sample_verifier :: SelfBackendVerifier where
  "sample_verifier =
     new_SelfBackendVerifier (\<lambda>endpoint scope0. ''0xAB12'') ''app'' ''https://example.org'' uuid False"

definition sample_proof :: snark_proof where
  "sample_proof =
     \<lparr> proof_a = [''1'', ''2''],
       proof_b = [[''3'', ''4''], [''5'', ''6'']],
       proof_c = [''7'', ''8''] \<rparr>"

definition sample_signals :: "string list" where
  "sample_signals = [''900'', ''1'', ''77'', ''0xAB12'', ''5'']"

text \<open>What the sample inputs give: the request built and the outcome returned.\<close>

definition sample_request :: request where
  "sample_request =
     \<lparr> rq_timestamp = 1700000000,
       rq_proof =
         \<lparr> olderThanEnabled = False,
           olderThan = ''18'',
           forbiddenCountriesEnabled = False,
           forbiddenCountriesListPacked = [[]],
           ofacEnabled = [False, False, False],
           vcAndDiscloseProof =
             \<lparr> vc_a = [''1'', ''2''],
               vc_b = [[Str ''4'', Str ''3''], [Str ''6'', Str ''5'']],
               vc_c = [''7'', ''8''],
               pubSignals = [''900'', ''1'', ''77'', ''0xAB12'', ''5''] \<rparr> \<rparr>,
       rq_types = [0, 1, 2, 3, 4, 5, 6],
       rq_user_identifier = ''user-5'' \<rparr>"

definition sample_outcome :: SelfVerificationResult where
  "sample_outcome =
     \<lparr> isValid = True,
       isValidDetails =
         \<lparr> isValidScope = True, isValidAttestationId = True,
           isValidProof = True, isValidNationality = True \<rparr>,
       userId = ''user-5'',
       application = ''0xAB12'',
       nullifier = Str ''900'',
       credentialSubject =
         [(''merkle_root'', Str ''77''),
          (''attestation_id'', Str ''1''),
          (''current_date'', Str ''2025-01-01T00:00:00.000Z''),
          (''issuing_state'', Str ''FRA''),
          (''name'', Arr [''DUPONT'', ''ALPHONSE'']),
          (''passport_number'', Str ''15AA81234''),
          (''nationality'', Str ''USA''),
          (''date_of_birth'', Str ''31-01-94''),
          (''gender'', Str ''M''),
          (''expiry_date'', Str ''31-10-40''),
          (''older_than'', Str ''18''),
          (''passport_no_ofac'', Bool True),
          (''name_and_dob_ofac'', Bool False),
          (''name_and_yob_ofac'', Bool True)],
       proof_field =
         \<lparr> value_proof = sample_proof, value_publicSignals = sample_signals \<rparr>,
       error_field = Inr (Str []) \<rparr>"

text \<open>
  Variations: a Verifier that reverts, a Verifier whose response holds the seven
  mandatory entries only, a packer and a Registry that fail.
\<close>

definition reverting_env :: collaborators where
  "reverting_env =
     sample_env\<lparr> verifyAll := (\<lambda>timestamp hub tys. Inl (Error ''execution reverted'')) \<rparr>"

definition mandatory_only_result :: verifyAll_result where
  "mandatory_only_result = sample_result\<lparr> result_0 := take 7 (result_0 sample_result) \<rparr>"

definition mandatory_only_env :: collaborators where
  "mandatory_only_env =
     sample_env\<lparr> verifyAll := (\<lambda>timestamp hub tys. Inr mandatory_only_result) \<rparr>"

definition failing_packer_env :: collaborators where
  "failing_packer_env =
     sample_env\<lparr> packForbiddenCountriesList := (\<lambda>countries. Inl (Error ''Invalid country code'')) \<rparr>"

definition failing_root_env :: collaborators where
  "failing_root_env =
     sample_env\<lparr> getIdentityCommitmentMerkleRoot := Inl (Error ''network error'') \<rparr>"

definition failing_timestamp_env :: collaborators where
  "failing_timestamp_env =
     sample_env\<lparr> rootTimestamps := (\<lambda>root. Inl (Error ''network error'')) \<rparr>"

section \<open>Auxiliary facts\<close>

lemmas sample_defs =
  sample_constants_def sample_types_def sample_result_def sample_env_def sample_verifier_def
  sample_proof_def sample_signals_def sample_request_def sample_outcome_def
  new_SelfBackendVerifier_def reverting_env_def mandatory_only_result_def
  mandatory_only_env_def failing_packer_env_def failing_root_env_def
  failing_timestamp_env_def

lemmas verify_defs =
  verify_def attestation_def credentialSubject_of_def verification_request_def
  vcAndDiscloseHubProof_def types_def str_at_def val_at_def Number_toString_def Let_def

lemmas setter_defs =
  enablePassportNoOfacCheck_def enableNameAndDobOfacCheck_def enableNameAndYobOfacCheck_def

lemma verify_of_request:
  "verification_request cc rdt env this p ps = Inr rq \<Longrightarrow>
   verify cc rdt env this p ps =
     attestation cc rdt env this p ps (rq_user_identifier rq)
       (verifyAll env (rq_timestamp rq) (rq_proof rq) (rq_types rq))"
  by (simp add: verify_def)

lemma Str_eq_str_at: "(Str s = str_at xs i) \<longleftrightarrow> (i < length xs \<and> xs ! i = s)"
  by (auto simp: str_at_def)

lemma attestation_response:
  "attestation cc rdt env this p ps uid (Inr result) = Inr out \<Longrightarrow>
   isValidDetails out =
     \<lparr> isValidScope = (Str (scope this) = str_at ps (VC_AND_DISCLOSE_SCOPE_INDEX cc)),
       isValidAttestationId =
         (Str (Number_toString (attestationId this)) =
          str_at ps (VC_AND_DISCLOSE_ATTESTATION_ID_INDEX cc)),
       isValidProof = result_1 result,
       isValidNationality =
         (enabled (nationality_check this) \<longrightarrow>
          val_at (result_0 result) (nationality rdt) = Str (val (nationality_check this))) \<rparr>
   \<and> isValid out =
       (result_1 result
        \<and> Str (scope this) = str_at ps (VC_AND_DISCLOSE_SCOPE_INDEX cc)
        \<and> Str (Number_toString (attestationId this)) =
            str_at ps (VC_AND_DISCLOSE_ATTESTATION_ID_INDEX cc)
        \<and> (enabled (nationality_check this) \<longrightarrow>
            val_at (result_0 result) (nationality rdt) = Str (val (nationality_check this))))"
  by (auto simp: attestation_def Let_def split: sum.splits)

lemma attestation_decode_error:
  "credentialSubject_of cc rdt env this ps result = Inl e \<Longrightarrow>
   attestation cc rdt env this p ps uid (Inr result) = Inl e"
  by (simp add: attestation_def Let_def)

lemma attestation_decode_ok:
  "credentialSubject_of cc rdt env this ps result = Inr subject \<Longrightarrow>
   \<exists>out. attestation cc rdt env this p ps uid (Inr result) = Inr out
        \<and> credentialSubject out = subject"
  by (simp add: attestation_def Let_def)

lemma request_user_identifier:
  "verification_request cc rdt env this p ps = Inr rq \<Longrightarrow>
   \<exists>n. toBigInt env (str_at ps (VC_AND_DISCLOSE_USER_IDENTIFIER_INDEX cc)) = Inr n
     \<and> castToUserIdentifier env n (user_identifier_type this) = Inr (rq_user_identifier rq)"
  by (auto simp: verification_request_def split: sum.splits)

lemma request_types:
  "verification_request cc rdt env this p ps = Inr rq \<Longrightarrow> rq_types rq = types rdt this"
  by (auto simp: verification_request_def split: sum.splits)

lemma request_payload:
  "verification_request cc rdt env this p ps = Inr rq \<Longrightarrow>
   2 \<le> length (proof_b p)
   \<and> vcAndDiscloseProof (rq_proof rq) =
       \<lparr> vc_a = proof_a p,
         vc_b = [[str_at (proof_b p ! 0) 1, str_at (proof_b p ! 0) 0],
                 [str_at (proof_b p ! 1) 1, str_at (proof_b p ! 1) 0]],
         vc_c = proof_c p,
         pubSignals = ps \<rparr>"
  by (auto simp: verification_request_def vcAndDiscloseHubProof_def split: sum.splits if_splits)

lemma toString_fail: "(toString v = Inl e) \<longleftrightarrow> (e = TypeError \<and> (v = Undefined \<or> v = Null))"
  by (cases v) auto

lemma credentialSubject_of_ok:
  assumes "toString (val_at (result_0 result) (older_than rdt)) = Inr s1"
      and "toString (val_at (result_0 result) (passport_no_ofac rdt)) = Inr s2"
      and "toString (val_at (result_0 result) (name_and_dob_ofac rdt)) = Inr s3"
      and "toString (val_at (result_0 result) (name_and_yob_ofac rdt)) = Inr s4"
  shows "\<exists>subject. credentialSubject_of cc rdt env this ps result = Inr subject
           \<and> map_of subject ''older_than'' = Some (Str s1)
           \<and> map_of subject ''passport_no_ofac'' = Some (Bool (s2 = ''1''))
           \<and> map_of subject ''name_and_dob_ofac'' = Some (Bool (s3 = ''1''))
           \<and> map_of subject ''name_and_yob_ofac'' = Some (Bool (s4 = ''1''))"
  using assms by (simp add: credentialSubject_of_def)

lemma credentialSubject_of_fail:
  assumes "toString (val_at (result_0 result) (older_than rdt)) = Inl TypeError
         \<or> toString (val_at (result_0 result) (passport_no_ofac rdt)) = Inl TypeError
         \<or> toString (val_at (result_0 result) (name_and_dob_ofac rdt)) = Inl TypeError
         \<or> toString (val_at (result_0 result) (name_and_yob_ofac rdt)) = Inl TypeError"
  shows "credentialSubject_of cc rdt env this ps result = Inl TypeError"
  using assms
  by (auto simp: credentialSubject_of_def toString_fail split: sum.splits)

lemma toString_defined:
  "v \<noteq> Undefined \<Longrightarrow> v \<noteq> Null \<Longrightarrow> \<exists>s. toString v = Inr s"
  by (cases v) auto

text \<open>
  The decoding succeeds exactly when the four entries it stringifies are present, and
  then stores their renderings; otherwise it throws a TypeError.
\<close>

lemma decode_dichotomy:
  fixes result :: verifyAll_result and rdt :: revealedDataTypes
  defines "v1 \<equiv> val_at (result_0 result) (older_than rdt)"
      and "v2 \<equiv> val_at (result_0 result) (passport_no_ofac rdt)"
      and "v3 \<equiv> val_at (result_0 result) (name_and_dob_ofac rdt)"
      and "v4 \<equiv> val_at (result_0 result) (name_and_yob_ofac rdt)"
  defines "present \<equiv> (\<forall>v \<in> {v1, v2, v3, v4}. v \<noteq> Undefined \<and> v \<noteq> Null)"
  shows "(present \<and>
          (\<exists>subject s1 s2 s3 s4.
             credentialSubject_of cc rdt env this ps result = Inr subject
             \<and> toString v1 = Inr s1 \<and> toString v2 = Inr s2
             \<and> toString v3 = Inr s3 \<and> toString v4 = Inr s4
             \<and> map_of subject ''older_than'' = Some (Str s1)
             \<and> map_of subject ''passport_no_ofac'' = Some (Bool (s2 = ''1''))
             \<and> map_of subject ''name_and_dob_ofac'' = Some (Bool (s3 = ''1''))
             \<and> map_of subject ''name_and_yob_ofac'' = Some (Bool (s4 = ''1''))))
       \<or> (\<not> present \<and> credentialSubject_of cc rdt env this ps result = Inl TypeError)"
proof (cases present)
  case True
  then have d: "v1 \<noteq> Undefined" "v1 \<noteq> Null" "v2 \<noteq> Undefined" "v2 \<noteq> Null"
    "v3 \<noteq> Undefined" "v3 \<noteq> Null" "v4 \<noteq> Undefined" "v4 \<noteq> Null"
    by (simp_all add: present_def)
  obtain s1 where s1: "toString v1 = Inr s1" using toString_defined d(1,2) by blast
  obtain s2 where s2: "toString v2 = Inr s2" using toString_defined d(3,4) by blast
  obtain s3 where s3: "toString v3 = Inr s3" using toString_defined d(5,6) by blast
  obtain s4 where s4: "toString v4 = Inr s4" using toString_defined d(7,8) by blast
  from credentialSubject_of_ok [OF s1 [unfolded v1_def] s2 [unfolded v2_def]
      s3 [unfolded v3_def] s4 [unfolded v4_def], of cc env this ps]
  obtain subject where
    "credentialSubject_of cc rdt env this ps result = Inr subject"
    "map_of subject ''older_than'' = Some (Str s1)"
    "map_of subject ''passport_no_ofac'' = Some (Bool (s2 = ''1''))"
    "map_of subject ''name_and_dob_ofac'' = Some (Bool (s3 = ''1''))"
    "map_of subject ''name_and_yob_ofac'' = Some (Bool (s4 = ''1''))"
    by blast
  with True s1 s2 s3 s4 show ?thesis by blast
next
  case False
  then have "toString v1 = Inl TypeError \<or> toString v2 = Inl TypeError
           \<or> toString v3 = Inl TypeError \<or> toString v4 = Inl TypeError"
    by (auto simp: present_def toString_fail)
  from credentialSubject_of_fail [OF this [unfolded v1_def v2_def v3_def v4_def]] False
  show ?thesis by simp
qed

section \<open>Configuration\<close>

text \<open>
  C9. Calling the same OFAC setter twice gives the state that calling it once gives.
  Each of the three setters raises its own flag and nothing else (putting the old flag
  back restores the object), the setters commute, and after all three the three flags
  are raised together.
\<close>

theorem ofac_setters_idempotent_independent:
  "enablePassportNoOfacCheck (enablePassportNoOfacCheck this) = enablePassportNoOfacCheck this
   \<and> enableNameAndDobOfacCheck (enableNameAndDobOfacCheck this) = enableNameAndDobOfacCheck this
   \<and> enableNameAndYobOfacCheck (enableNameAndYobOfacCheck this) = enableNameAndYobOfacCheck this
   \<and> passportNoOfac (enablePassportNoOfacCheck this)
   \<and> nameAndDobOfac (enableNameAndDobOfacCheck this)
   \<and> nameAndYobOfac (enableNameAndYobOfacCheck this)
   \<and> (enablePassportNoOfacCheck this)\<lparr> passportNoOfac := passportNoOfac this \<rparr> = this
   \<and> (enableNameAndDobOfacCheck this)\<lparr> nameAndDobOfac := nameAndDobOfac this \<rparr> = this
   \<and> (enableNameAndYobOfacCheck this)\<lparr> nameAndYobOfac := nameAndYobOfac this \<rparr> = this
   \<and> enablePassportNoOfacCheck (enableNameAndDobOfacCheck this) =
       enableNameAndDobOfacCheck (enablePassportNoOfacCheck this)
   \<and> enablePassportNoOfacCheck (enableNameAndYobOfacCheck this) =
       enableNameAndYobOfacCheck (enablePassportNoOfacCheck this)
   \<and> enableNameAndDobOfacCheck (enableNameAndYobOfacCheck this) =
       enableNameAndYobOfacCheck (enableNameAndDobOfacCheck this)
   \<and> enableNameAndYobOfacCheck (enableNameAndDobOfacCheck (enablePassportNoOfacCheck this)) =
       this\<lparr> passportNoOfac := True, nameAndDobOfac := True, nameAndYobOfac := True \<rparr>"
  by (simp add: setter_defs)

text \<open>
  C5. For every number \<open>a\<close> (finite, \<^verbatim>\<open>NaN\<close> or infinite), \<^verbatim>\<open>setMinimumAge(a)\<close>
  throws exactly when \<open>a \<le> 0\<close> or \<open>a > 100\<close>: a finite value outside \<open>(0, 100]\<close> and
  both infinities throw, \<^verbatim>\<open>NaN\<close> does not. When it returns, the minimum-age check
  is enabled with \<^verbatim>\<open>a.toString()\<close>, every other field of the object is as before,
  and a request built from the new object carries \<^verbatim>\<open>olderThanEnabled = true\<close> and
  \<^verbatim>\<open>olderThan = a.toString()\<close>; for an integer \<open>n\<close> that string is the decimal
  numeral of \<open>n\<close>.
\<close>

theorem setMinimumAge_range_and_effect:
  "(isl (setMinimumAge render a this) \<longleftrightarrow>
      (case a of Num r \<Rightarrow> r \<le> 0 \<or> r > 100 | NaN \<Rightarrow> False
               | Infinity \<Rightarrow> True | NegInfinity \<Rightarrow> True))
   \<and> (isl (setMinimumAge render a this) \<longleftrightarrow> js_le a (Num 0) \<or> js_gt a (Num 100))
   \<and> (setMinimumAge render a this = Inr this' \<longrightarrow>
        minimumAge this' = \<lparr> enabled = True, val = toString_number render a \<rparr>
        \<and> this'\<lparr> minimumAge := minimumAge this \<rparr> = this
        \<and> (a = Num (of_int n) \<longrightarrow> val (minimumAge this') = Number_toString n)
        \<and> (verification_request cc rdt env this' p ps = Inr rq \<longrightarrow>
             olderThanEnabled (rq_proof rq)
             \<and> olderThan (rq_proof rq) = toString_number render a))"
proof -
  have range: "isl (setMinimumAge render a this) \<longleftrightarrow> js_le a (Num 0) \<or> js_gt a (Num 100)"
    by (simp add: setMinimumAge_def)
  have cases: "js_le a (Num 0) \<or> js_gt a (Num 100) \<longleftrightarrow>
      (case a of Num r \<Rightarrow> r \<le> 0 \<or> r > 100 | NaN \<Rightarrow> False
               | Infinity \<Rightarrow> True | NegInfinity \<Rightarrow> True)"
    by (cases a) auto
  have effect: "minimumAge this' = \<lparr> enabled = True, val = toString_number render a \<rparr>
        \<and> this'\<lparr> minimumAge := minimumAge this \<rparr> = this"
    if "setMinimumAge render a this = Inr this'"
    using that by (auto simp: setMinimumAge_def split: if_splits)
  have digits: "val (minimumAge this') = Number_toString n"
    if ok: "setMinimumAge render a this = Inr this'" and a: "a = Num (of_int n)"
  proof -
    from ok a have "0 < n" "n \<le> 100"
      by (auto simp: setMinimumAge_def split: if_splits)
    then have "\<bar>real_of_int n\<bar> \<le> 2 ^ 53"
      by simp
    with effect [OF ok] a show ?thesis by simp
  qed
  have carried: "olderThanEnabled (rq_proof rq)
        \<and> olderThan (rq_proof rq) = toString_number render a"
    if ok: "setMinimumAge render a this = Inr this'"
      and rq: "verification_request cc rdt env this' p ps = Inr rq"
    using rq effect [OF ok]
    by (auto simp: verification_request_def vcAndDiscloseHubProof_def
             split: sum.splits if_splits)
  from range cases effect digits carried show ?thesis by blast
qed

theorem setMinimumAge_range_and_effect_witness:
  "setMinimumAge (\<lambda>r. ''0.5'') (Num 21) sample_verifier =
     Inr (sample_verifier\<lparr> minimumAge := \<lparr> enabled = True, val = ''21'' \<rparr> \<rparr>)
   \<and> verification_request sample_constants sample_types sample_env
        (sample_verifier\<lparr> minimumAge := \<lparr> enabled = True, val = ''21'' \<rparr> \<rparr>)
        sample_proof sample_signals =
      Inr (sample_request
            \<lparr> rq_proof := (rq_proof sample_request)\<lparr> olderThanEnabled := True, olderThan := ''21'' \<rparr>,
              rq_types := [0, 1, 2, 3, 4, 5, 6, 7] \<rparr>)
   \<and> olderThanEnabled (rq_proof (sample_request
            \<lparr> rq_proof := (rq_proof sample_request)\<lparr> olderThanEnabled := True, olderThan := ''21'' \<rparr>,
              rq_types := [0, 1, 2, 3, 4, 5, 6, 7] \<rparr>))
   \<and> olderThan (rq_proof (sample_request
            \<lparr> rq_proof := (rq_proof sample_request)\<lparr> olderThanEnabled := True, olderThan := ''21'' \<rparr>,
              rq_types := [0, 1, 2, 3, 4, 5, 6, 7] \<rparr>)) = toString_number (\<lambda>r. ''0.5'') (Num 21)
   \<and> toString_number (\<lambda>r. ''0.5'') (Num 21) = ''21''
   \<and> Number_toString 21 = ''21''
   \<and> setMinimumAge (\<lambda>r. ''0.5'') (Num (1 / 2)) sample_verifier =
       Inr (sample_verifier\<lparr> minimumAge := \<lparr> enabled = True, val = ''0.5'' \<rparr> \<rparr>)
   \<and> setMinimumAge (\<lambda>r. ''0.5'') NaN sample_verifier =
       Inr (sample_verifier\<lparr> minimumAge := \<lparr> enabled = True, val = ''NaN'' \<rparr> \<rparr>)
   \<and> isl (setMinimumAge (\<lambda>r. ''0.5'') (Num 0) sample_verifier)
   \<and> isl (setMinimumAge (\<lambda>r. ''0.5'') (Num (- 3)) sample_verifier)
   \<and> isl (setMinimumAge (\<lambda>r. ''0.5'') (Num 101) sample_verifier)
   \<and> isl (setMinimumAge (\<lambda>r. ''0.5'') Infinity sample_verifier)
   \<and> isl (setMinimumAge (\<lambda>r. ''0.5'') NegInfinity sample_verifier)
   \<and> \<not> isl (setMinimumAge (\<lambda>r. ''0.5'') (Num 1) sample_verifier)
   \<and> \<not> isl (setMinimumAge (\<lambda>r. ''0.5'') (Num 100) sample_verifier)"
proof -
  have n: "toString_number (\<lambda>r. ''0.5'') (Num 21) = ''21''" "Number_toString 21 = ''21''"
    "toString_number (\<lambda>r. ''0.5'') (Num (1 / 2)) = ''0.5''"
    by (simp_all add: Number_toString_def)
  have set: "setMinimumAge (\<lambda>r. ''0.5'') (Num 21) sample_verifier =
     Inr (sample_verifier\<lparr> minimumAge := \<lparr> enabled = True, val = ''21'' \<rparr> \<rparr>)"
    using n(1) by (simp add: setMinimumAge_def)
  have half: "setMinimumAge (\<lambda>r. ''0.5'') (Num (1 / 2)) sample_verifier =
       Inr (sample_verifier\<lparr> minimumAge := \<lparr> enabled = True, val = ''0.5'' \<rparr> \<rparr>)"
    using n(3) by (simp add: setMinimumAge_def)
  have nan: "setMinimumAge (\<lambda>r. ''0.5'') NaN sample_verifier =
       Inr (sample_verifier\<lparr> minimumAge := \<lparr> enabled = True, val = ''NaN'' \<rparr> \<rparr>)"
    by (simp add: setMinimumAge_def)
  have rq: "verification_request sample_constants sample_types sample_env
        (sample_verifier\<lparr> minimumAge := \<lparr> enabled = True, val = ''21'' \<rparr> \<rparr>)
        sample_proof sample_signals =
      Inr (sample_request
            \<lparr> rq_proof := (rq_proof sample_request)\<lparr> olderThanEnabled := True, olderThan := ''21'' \<rparr>,
              rq_types := [0, 1, 2, 3, 4, 5, 6, 7] \<rparr>)"
    by (simp add: sample_defs verify_defs)
  note t = setMinimumAge_range_and_effect [where render = "\<lambda>r. ''0.5''" and this = sample_verifier]
  from t [where a = "Num 21"
      and this' = "sample_verifier\<lparr> minimumAge := \<lparr> enabled = True, val = ''21'' \<rparr> \<rparr>"
      and n = 21 and cc = sample_constants and rdt = sample_types and env = sample_env
      and p = sample_proof and ps = sample_signals]
    t [where a = "Num (1 / 2)"
      and this' = "sample_verifier\<lparr> minimumAge := \<lparr> enabled = True, val = ''0.5'' \<rparr> \<rparr>"]
    t [where a = NaN
      and this' = "sample_verifier\<lparr> minimumAge := \<lparr> enabled = True, val = ''NaN'' \<rparr> \<rparr>"]
    t [where a = "Num 0"] t [where a = "Num (- 3)"] t [where a = "Num 101"]
    t [where a = Infinity] t [where a = NegInfinity] t [where a = "Num 1"]
    t [where a = "Num 100"]
    set half nan rq n
  show ?thesis by simp
qed

text \<open>
  C6. \<^verbatim>\<open>excludeCountries(...L)\<close> throws exactly when \<open>L\<close> has more than 40 elements.
  When it returns, the exclusion state is enabled and holds \<open>L\<close> itself, in its order,
  whatever list was stored before; every other field of the object is as before.
\<close>

theorem excludeCountries_limit_and_replace:
  "(isl (excludeCountries L this) \<longleftrightarrow> length L > 40)
   \<and> (excludeCountries L this = Inr this' \<longrightarrow>
        excludedCountries this' = \<lparr> enabled = True, val = L \<rparr>
        \<and> this'\<lparr> excludedCountries := excludedCountries this \<rparr> = this)"
  by (auto simp: excludeCountries_def)

theorem excludeCountries_limit_and_replace_witness:
  "excludeCountries [''IRN'', ''PRK'']
     (sample_verifier\<lparr> excludedCountries := \<lparr> enabled = True, val = [''CUB''] \<rparr> \<rparr>) =
     Inr (sample_verifier\<lparr> excludedCountries := \<lparr> enabled = True, val = [''IRN'', ''PRK''] \<rparr> \<rparr>)
   \<and> excludedCountries
        (sample_verifier\<lparr> excludedCountries := \<lparr> enabled = True, val = [''IRN'', ''PRK''] \<rparr> \<rparr>) =
      \<lparr> enabled = True, val = [''IRN'', ''PRK''] \<rparr>
   \<and> isl (excludeCountries (replicate 41 ''IRN'') sample_verifier)
   \<and> \<not> isl (excludeCountries (replicate 40 ''IRN'') sample_verifier)"
proof -
  have ex: "excludeCountries [''IRN'', ''PRK'']
     (sample_verifier\<lparr> excludedCountries := \<lparr> enabled = True, val = [''CUB''] \<rparr> \<rparr>) =
     Inr (sample_verifier\<lparr> excludedCountries := \<lparr> enabled = True, val = [''IRN'', ''PRK''] \<rparr> \<rparr>)"
    by (simp add: excludeCountries_def)
  from excludeCountries_limit_and_replace [where L = "[''IRN'', ''PRK'']"
      and this = "sample_verifier\<lparr> excludedCountries := \<lparr> enabled = True, val = [''CUB''] \<rparr> \<rparr>"
      and this' = "sample_verifier\<lparr> excludedCountries := \<lparr> enabled = True, val = [''IRN'', ''PRK''] \<rparr> \<rparr>"]
    excludeCountries_limit_and_replace [where L = "replicate 41 ''IRN''" and this = sample_verifier]
    excludeCountries_limit_and_replace [where L = "replicate 40 ''IRN''" and this = sample_verifier]
    ex
  show ?thesis by simp
qed

section \<open>Building the request\<close>

text \<open>
  C3. For every setting of the four policy flags the requested-fields list is the seven
  mandatory fields in their fixed order, then \<^verbatim>\<open>older_than\<close> iff the age check is
  enabled, then \<^verbatim>\<open>passport_no_ofac\<close>, \<^verbatim>\<open>name_and_dob_ofac\<close> and
  \<^verbatim>\<open>name_and_yob_ofac\<close>, each iff its flag is set; this is the list the request
  carries. With the age check and only the passport-number OFAC check enabled it has
  exactly nine entries.
\<close>

theorem requested_fields_order:
  "types rdt this =
     [issuing_state rdt, name rdt, passport_number rdt, nationality rdt,
      date_of_birth rdt, gender rdt, expiry_date rdt]
     @ (if enabled (minimumAge this) then [older_than rdt] else [])
     @ (if passportNoOfac this then [passport_no_ofac rdt] else [])
     @ (if nameAndDobOfac this then [name_and_dob_ofac rdt] else [])
     @ (if nameAndYobOfac this then [name_and_yob_ofac rdt] else [])
   \<and> (verification_request cc rdt env this p ps = Inr rq \<longrightarrow> rq_types rq = types rdt this)
   \<and> (enabled (minimumAge this) \<and> passportNoOfac this
        \<and> \<not> nameAndDobOfac this \<and> \<not> nameAndYobOfac this \<longrightarrow>
        types rdt this =
          [issuing_state rdt, name rdt, passport_number rdt, nationality rdt,
           date_of_birth rdt, gender rdt, expiry_date rdt, older_than rdt,
           passport_no_ofac rdt]
        \<and> length (types rdt this) = 9)"
  using request_types [of cc rdt env this p ps rq]
  by (simp add: types_def Let_def)

theorem requested_fields_order_witness:
  "verification_request sample_constants sample_types sample_env sample_verifier
     sample_proof sample_signals = Inr sample_request
   \<and> rq_types sample_request = types sample_types sample_verifier
   \<and> types sample_types sample_verifier = [0, 1, 2, 3, 4, 5, 6]
   \<and> enabled (minimumAge (enablePassportNoOfacCheck
        (sample_verifier\<lparr> minimumAge := \<lparr> enabled = True, val = ''18'' \<rparr> \<rparr>)))
   \<and> passportNoOfac (enablePassportNoOfacCheck
        (sample_verifier\<lparr> minimumAge := \<lparr> enabled = True, val = ''18'' \<rparr> \<rparr>))
   \<and> \<not> nameAndDobOfac (enablePassportNoOfacCheck
        (sample_verifier\<lparr> minimumAge := \<lparr> enabled = True, val = ''18'' \<rparr> \<rparr>))
   \<and> \<not> nameAndYobOfac (enablePassportNoOfacCheck
        (sample_verifier\<lparr> minimumAge := \<lparr> enabled = True, val = ''18'' \<rparr> \<rparr>))
   \<and> types sample_types (enablePassportNoOfacCheck
        (sample_verifier\<lparr> minimumAge := \<lparr> enabled = True, val = ''18'' \<rparr> \<rparr>)) =
      [0, 1, 2, 3, 4, 5, 6, 7, 8]"
proof -
  have rq: "verification_request sample_constants sample_types sample_env sample_verifier
     sample_proof sample_signals = Inr sample_request"
    by (simp add: sample_defs verify_defs)
  have flags:
    "enabled (minimumAge (enablePassportNoOfacCheck
        (sample_verifier\<lparr> minimumAge := \<lparr> enabled = True, val = ''18'' \<rparr> \<rparr>)))"
    "passportNoOfac (enablePassportNoOfacCheck
        (sample_verifier\<lparr> minimumAge := \<lparr> enabled = True, val = ''18'' \<rparr> \<rparr>))"
    "\<not> nameAndDobOfac (enablePassportNoOfacCheck
        (sample_verifier\<lparr> minimumAge := \<lparr> enabled = True, val = ''18'' \<rparr> \<rparr>))"
    "\<not> nameAndYobOfac (enablePassportNoOfacCheck
        (sample_verifier\<lparr> minimumAge := \<lparr> enabled = True, val = ''18'' \<rparr> \<rparr>))"
    by (simp_all add: sample_defs setter_defs)
  have tys: "issuing_state sample_types = 0" "name sample_types = 1"
    "passport_number sample_types = 2" "nationality sample_types = 3"
    "date_of_birth sample_types = 4" "gender sample_types = 5"
    "expiry_date sample_types = 6" "older_than sample_types = 7"
    "passport_no_ofac sample_types = 8"
    by (simp_all add: sample_types_def)
  have off: "\<not> enabled (minimumAge sample_verifier)" "\<not> passportNoOfac sample_verifier"
    "\<not> nameAndDobOfac sample_verifier" "\<not> nameAndYobOfac sample_verifier"
    by (simp_all add: sample_defs)
  from requested_fields_order [where rdt = sample_types and this = sample_verifier
      and cc = sample_constants and env = sample_env and p = sample_proof
      and ps = sample_signals and rq = sample_request]
    requested_fields_order [where rdt = sample_types
      and this = "enablePassportNoOfacCheck
        (sample_verifier\<lparr> minimumAge := \<lparr> enabled = True, val = ''18'' \<rparr> \<rparr>)"]
    rq flags tys off
  show ?thesis by simp
qed

text \<open>
  C4. Whenever a request is built, the proof it carries has \<^verbatim>\<open>a\<close>, \<^verbatim>\<open>c\<close> and the
  public signals of the input unchanged and \<^verbatim>\<open>b\<close> with the two columns of each of its
  two rows exchanged; nothing in this part of the payload depends on the
  configuration. The Verifier is called with exactly this request.
\<close>

theorem payload_swaps_b_columns:
  "verification_request cc rdt env this p ps = Inr rq \<Longrightarrow>
   vcAndDiscloseProof (rq_proof rq) =
     \<lparr> vc_a = proof_a p,
       vc_b = [[str_at (proof_b p ! 0) 1, str_at (proof_b p ! 0) 0],
               [str_at (proof_b p ! 1) 1, str_at (proof_b p ! 1) 0]],
       vc_c = proof_c p,
       pubSignals = ps \<rparr>
   \<and> (proof_b p = [[b00, b01], [b10, b11]] \<longrightarrow>
        vc_b (vcAndDiscloseProof (rq_proof rq)) = [[Str b01, Str b00], [Str b11, Str b10]])
   \<and> verify cc rdt env this p ps =
       attestation cc rdt env this p ps (rq_user_identifier rq)
         (verifyAll env (rq_timestamp rq) (rq_proof rq) (rq_types rq))"
  using request_payload [of cc rdt env this p ps rq]
  by (auto simp: verify_of_request str_at_def)

theorem payload_swaps_b_columns_witness:
  "verification_request sample_constants sample_types sample_env sample_verifier
     sample_proof sample_signals = Inr sample_request
   \<and> proof_b sample_proof = [[''3'', ''4''], [''5'', ''6'']]
   \<and> vcAndDiscloseProof (rq_proof sample_request) =
       \<lparr> vc_a = [''1'', ''2''],
         vc_b = [[Str ''4'', Str ''3''], [Str ''6'', Str ''5'']],
         vc_c = [''7'', ''8''],
         pubSignals = sample_signals \<rparr>"
proof -
  have rq: "verification_request sample_constants sample_types sample_env sample_verifier
     sample_proof sample_signals = Inr sample_request"
    by (simp add: sample_defs verify_defs)
  have b: "proof_b sample_proof = [[''3'', ''4''], [''5'', ''6'']]"
    by (simp add: sample_proof_def)
  from payload_swaps_b_columns [OF rq, where ?b00.0 = "''3''" and ?b01.0 = "''4''"
      and ?b10.0 = "''5''" and ?b11.0 = "''6''"] rq b
  show ?thesis by (simp add: sample_proof_def str_at_def)
qed

text \<open>
  C8. A failure of the country-list packer leaves \<^verbatim>\<open>verify\<close> as that raised error.
  So does a failure of the root read or of the timestamp read, once the payload has
  been put together; and whenever one of the two Registry reads fails, \<^verbatim>\<open>verify\<close>
  ends in a raised error, never in a returned outcome.
\<close>

theorem verify_upstream_failure_propagates:
  "(packForbiddenCountriesList env (val (excludedCountries this)) = Inl e \<longrightarrow>
      verify cc rdt env this p ps = Inl e)
   \<and> (packForbiddenCountriesList env (val (excludedCountries this)) = Inr packed
      \<and> 2 \<le> length (proof_b p)
      \<and> getIdentityCommitmentMerkleRoot env = Inl e \<longrightarrow>
      verify cc rdt env this p ps = Inl e)
   \<and> (packForbiddenCountriesList env (val (excludedCountries this)) = Inr packed
      \<and> 2 \<le> length (proof_b p)
      \<and> getIdentityCommitmentMerkleRoot env = Inr currentRoot
      \<and> rootTimestamps env currentRoot = Inl e \<longrightarrow>
      verify cc rdt env this p ps = Inl e)
   \<and> (getIdentityCommitmentMerkleRoot env = Inl e
      \<or> (getIdentityCommitmentMerkleRoot env = Inr currentRoot \<and> rootTimestamps env currentRoot = Inl e) \<longrightarrow>
      isl (verify cc rdt env this p ps))"
  by (auto simp: verify_def verification_request_def vcAndDiscloseHubProof_def split: sum.splits)

theorem verify_upstream_failure_propagates_witness:
  "packForbiddenCountriesList failing_packer_env (val (excludedCountries sample_verifier)) =
     Inl (Error ''Invalid country code'')
   \<and> verify sample_constants sample_types failing_packer_env sample_verifier
       sample_proof sample_signals = Inl (Error ''Invalid country code'')
   \<and> packForbiddenCountriesList failing_root_env (val (excludedCountries sample_verifier)) =
       Inr [[]]
   \<and> 2 \<le> length (proof_b sample_proof)
   \<and> getIdentityCommitmentMerkleRoot failing_root_env = Inl (Error ''network error'')
   \<and> verify sample_constants sample_types failing_root_env sample_verifier
       sample_proof sample_signals = Inl (Error ''network error'')
   \<and> packForbiddenCountriesList failing_timestamp_env (val (excludedCountries sample_verifier)) =
       Inr [[]]
   \<and> getIdentityCommitmentMerkleRoot failing_timestamp_env = Inr 77
   \<and> rootTimestamps failing_timestamp_env 77 = Inl (Error ''network error'')
   \<and> verify sample_constants sample_types failing_timestamp_env sample_verifier
       sample_proof sample_signals = Inl (Error ''network error'')
   \<and> isl (verify sample_constants sample_types failing_timestamp_env sample_verifier
       sample_proof sample_signals)"
proof -
  have h1: "packForbiddenCountriesList failing_packer_env
      (val (excludedCountries sample_verifier)) = Inl (Error ''Invalid country code'')"
    by (simp add: sample_defs)
  have h2: "packForbiddenCountriesList failing_root_env
      (val (excludedCountries sample_verifier)) = Inr [[]]"
    "2 \<le> length (proof_b sample_proof)"
    "getIdentityCommitmentMerkleRoot failing_root_env = Inl (Error ''network error'')"
    by (simp_all add: sample_defs)
  have h3: "packForbiddenCountriesList failing_timestamp_env
      (val (excludedCountries sample_verifier)) = Inr [[]]"
    "getIdentityCommitmentMerkleRoot failing_timestamp_env = Inr 77"
    "rootTimestamps failing_timestamp_env 77 = Inl (Error ''network error'')"
    by (simp_all add: sample_defs)
  from verify_upstream_failure_propagates [where env = failing_packer_env
      and this = sample_verifier and e = "Error ''Invalid country code''"
      and cc = sample_constants and rdt = sample_types and p = sample_proof
      and ps = sample_signals]
    verify_upstream_failure_propagates [where env = failing_root_env
      and this = sample_verifier and e = "Error ''network error''" and packed = "[[]]"
      and cc = sample_constants and rdt = sample_types and p = sample_proof
      and ps = sample_signals]
    verify_upstream_failure_propagates [where env = failing_timestamp_env
      and this = sample_verifier and e = "Error ''network error''" and packed = "[[]]"
      and currentRoot = 77
      and cc = sample_constants and rdt = sample_types and p = sample_proof
      and ps = sample_signals]
    h1 h2 h3
  show ?thesis by simp
qed

section \<open>Reading the response\<close>

text \<open>
  C1. When the Verifier call returns a response and \<^verbatim>\<open>verify\<close> returns an outcome:
  \<^verbatim>\<open>isValidScope\<close> says that the public signal at the scope index is, character by
  character, the stored scope hash; \<^verbatim>\<open>isValidAttestationId\<close> says that the signal at
  the attestation-id index is the decimal rendering of the configured attestation id;
  \<^verbatim>\<open>isValidProof\<close> is the response's validity flag; and \<^verbatim>\<open>isValid\<close> is the
  conjunction of the four sub-checks.
\<close>

theorem verify_validity_flags:
  "verification_request cc rdt env this p ps = Inr rq \<Longrightarrow>
   verifyAll env (rq_timestamp rq) (rq_proof rq) (rq_types rq) = Inr result \<Longrightarrow>
   verify cc rdt env this p ps = Inr out \<Longrightarrow>
   (isValidScope (isValidDetails out) \<longleftrightarrow>
      VC_AND_DISCLOSE_SCOPE_INDEX cc < length ps
      \<and> ps ! VC_AND_DISCLOSE_SCOPE_INDEX cc = scope this)
   \<and> (isValidAttestationId (isValidDetails out) \<longleftrightarrow>
      VC_AND_DISCLOSE_ATTESTATION_ID_INDEX cc < length ps
      \<and> ps ! VC_AND_DISCLOSE_ATTESTATION_ID_INDEX cc = Number_toString (attestationId this))
   \<and> isValidProof (isValidDetails out) = result_1 result
   \<and> (isValid out \<longleftrightarrow>
      isValidProof (isValidDetails out) \<and> isValidScope (isValidDetails out)
      \<and> isValidAttestationId (isValidDetails out) \<and> isValidNationality (isValidDetails out))"
proof -
  assume rq: "verification_request cc rdt env this p ps = Inr rq"
    and call: "verifyAll env (rq_timestamp rq) (rq_proof rq) (rq_types rq) = Inr result"
    and out: "verify cc rdt env this p ps = Inr out"
  from verify_of_request [OF rq] call out
  have "attestation cc rdt env this p ps (rq_user_identifier rq) (Inr result) = Inr out"
    by simp
  from attestation_response [OF this] show ?thesis
    by (simp add: Str_eq_str_at)
qed

theorem verify_validity_flags_witness:
  "verification_request sample_constants sample_types sample_env sample_verifier
     sample_proof sample_signals = Inr sample_request
   \<and> verifyAll sample_env (rq_timestamp sample_request) (rq_proof sample_request)
       (rq_types sample_request) = Inr sample_result
   \<and> verify sample_constants sample_types sample_env sample_verifier
       sample_proof sample_signals = Inr sample_outcome
   \<and> sample_signals ! VC_AND_DISCLOSE_SCOPE_INDEX sample_constants = scope sample_verifier
   \<and> sample_signals ! VC_AND_DISCLOSE_ATTESTATION_ID_INDEX sample_constants =
       Number_toString (attestationId sample_verifier)
   \<and> isValidScope (isValidDetails sample_outcome)
   \<and> isValidAttestationId (isValidDetails sample_outcome)
   \<and> isValidProof (isValidDetails sample_outcome) = result_1 sample_result
   \<and> isValid sample_outcome"
proof -
  have rq: "verification_request sample_constants sample_types sample_env sample_verifier
     sample_proof sample_signals = Inr sample_request"
    by (simp add: sample_defs verify_defs)
  have call: "verifyAll sample_env (rq_timestamp sample_request) (rq_proof sample_request)
       (rq_types sample_request) = Inr sample_result"
    by (simp add: sample_env_def)
  have out: "verify sample_constants sample_types sample_env sample_verifier
       sample_proof sample_signals = Inr sample_outcome"
    by (simp add: sample_defs verify_defs)
  have sig: "VC_AND_DISCLOSE_SCOPE_INDEX sample_constants < length sample_signals"
    "sample_signals ! VC_AND_DISCLOSE_SCOPE_INDEX sample_constants = scope sample_verifier"
    "VC_AND_DISCLOSE_ATTESTATION_ID_INDEX sample_constants < length sample_signals"
    "sample_signals ! VC_AND_DISCLOSE_ATTESTATION_ID_INDEX sample_constants =
       Number_toString (attestationId sample_verifier)"
    by (simp_all add: sample_defs Number_toString_def)
  have rest: "isValidNationality (isValidDetails sample_outcome)" "result_1 sample_result"
    by (simp_all add: sample_outcome_def sample_result_def)
  from verify_validity_flags [OF rq call out] rq call out sig rest
  show ?thesis by simp
qed

text \<open>
  C7. When the Verifier call returns a response and \<^verbatim>\<open>verify\<close> returns an outcome:
  with the nationality check disabled \<^verbatim>\<open>isValidNationality\<close> is true; with it enabled
  \<^verbatim>\<open>isValidNationality\<close> is true exactly when the decoded nationality entry is the
  configured nationality string, and a mismatch makes \<^verbatim>\<open>isValid\<close> false.
\<close>

theorem verify_nationality_check:
  "verification_request cc rdt env this p ps = Inr rq \<Longrightarrow>
   verifyAll env (rq_timestamp rq) (rq_proof rq) (rq_types rq) = Inr result \<Longrightarrow>
   verify cc rdt env this p ps = Inr out \<Longrightarrow>
   (\<not> enabled (nationality_check this) \<longrightarrow> isValidNationality (isValidDetails out))
   \<and> (enabled (nationality_check this) \<longrightarrow>
        (isValidNationality (isValidDetails out) \<longleftrightarrow>
         val_at (result_0 result) (nationality rdt) = Str (val (nationality_check this))))
   \<and> (enabled (nationality_check this)
        \<and> val_at (result_0 result) (nationality rdt) \<noteq> Str (val (nationality_check this)) \<longrightarrow>
        \<not> isValid out)"
proof -
  assume rq: "verification_request cc rdt env this p ps = Inr rq"
    and call: "verifyAll env (rq_timestamp rq) (rq_proof rq) (rq_types rq) = Inr result"
    and out: "verify cc rdt env this p ps = Inr out"
  from verify_of_request [OF rq] call out
  have "attestation cc rdt env this p ps (rq_user_identifier rq) (Inr result) = Inr out"
    by simp
  from attestation_response [OF this] show ?thesis
    by simp
qed

theorem verify_nationality_check_witness:
  "verification_request sample_constants sample_types sample_env
     (setNationality ''FRA'' sample_verifier) sample_proof sample_signals = Inr sample_request
   \<and> verifyAll sample_env (rq_timestamp sample_request) (rq_proof sample_request)
       (rq_types sample_request) = Inr sample_result
   \<and> verify sample_constants sample_types sample_env
       (setNationality ''FRA'' sample_verifier) sample_proof sample_signals =
      Inr (sample_outcome\<lparr> isValid := False,
             isValidDetails := (isValidDetails sample_outcome)\<lparr> isValidNationality := False \<rparr> \<rparr>)
   \<and> enabled (nationality_check (setNationality ''FRA'' sample_verifier))
   \<and> val_at (result_0 sample_result) (nationality sample_types) = Str ''USA''
   \<and> val (nationality_check (setNationality ''FRA'' sample_verifier)) = ''FRA''
   \<and> \<not> isValidNationality (isValidDetails
         (sample_outcome\<lparr> isValid := False,
             isValidDetails := (isValidDetails sample_outcome)\<lparr> isValidNationality := False \<rparr> \<rparr>))
   \<and> \<not> isValid
         (sample_outcome\<lparr> isValid := False,
             isValidDetails := (isValidDetails sample_outcome)\<lparr> isValidNationality := False \<rparr> \<rparr>)
   \<and> verification_request sample_constants sample_types sample_env sample_verifier
       sample_proof sample_signals = Inr sample_request
   \<and> verify sample_constants sample_types sample_env sample_verifier
       sample_proof sample_signals = Inr sample_outcome
   \<and> \<not> enabled (nationality_check sample_verifier)
   \<and> isValidNationality (isValidDetails sample_outcome)"
proof -
  have rq: "verification_request sample_constants sample_types sample_env
     (setNationality ''FRA'' sample_verifier) sample_proof sample_signals = Inr sample_request"
    by (simp add: sample_defs verify_defs setNationality_def)
  have call: "verifyAll sample_env (rq_timestamp sample_request) (rq_proof sample_request)
       (rq_types sample_request) = Inr sample_result"
    by (simp add: sample_env_def)
  have out: "verify sample_constants sample_types sample_env
       (setNationality ''FRA'' sample_verifier) sample_proof sample_signals =
      Inr (sample_outcome\<lparr> isValid := False,
             isValidDetails := (isValidDetails sample_outcome)\<lparr> isValidNationality := False \<rparr> \<rparr>)"
    by (simp add: sample_defs verify_defs setNationality_def)
  have cfg: "enabled (nationality_check (setNationality ''FRA'' sample_verifier))"
    "val (nationality_check (setNationality ''FRA'' sample_verifier)) = ''FRA''"
    "val_at (result_0 sample_result) (nationality sample_types) = Str ''USA''"
    by (simp_all add: setNationality_def sample_defs val_at_def)
  have rq0: "verification_request sample_constants sample_types sample_env sample_verifier
       sample_proof sample_signals = Inr sample_request"
    by (simp add: sample_defs verify_defs)
  have out0: "verify sample_constants sample_types sample_env sample_verifier
       sample_proof sample_signals = Inr sample_outcome"
    by (simp add: sample_defs verify_defs)
  have off: "\<not> enabled (nationality_check sample_verifier)"
    by (simp add: sample_defs)
  from verify_nationality_check [OF rq call out] verify_nationality_check [OF rq0 call out0]
    rq call out cfg rq0 out0 off
  show ?thesis by simp
qed

text \<open>
  C2. When the Verifier call throws, \<^verbatim>\<open>verify\<close> returns an outcome: \<^verbatim>\<open>isValid\<close> and
  the four sub-checks are false, the credential subject is empty, the error field is
  what was thrown, the proof and signals are echoed, and \<^verbatim>\<open>userId\<close>,
  \<^verbatim>\<open>application\<close> and \<^verbatim>\<open>nullifier\<close> are the decoded user-identifier signal, the
  stored scope and the nullifier signal.
\<close>

theorem verify_verifier_throws:
  "verification_request cc rdt env this p ps = Inr rq \<Longrightarrow>
   verifyAll env (rq_timestamp rq) (rq_proof rq) (rq_types rq) = Inl err \<Longrightarrow>
   verify cc rdt env this p ps =
     Inr \<lparr> isValid = False,
           isValidDetails =
             \<lparr> isValidScope = False, isValidAttestationId = False,
               isValidProof = False, isValidNationality = False \<rparr>,
           userId = rq_user_identifier rq,
           application = scope this,
           nullifier = str_at ps (VC_AND_DISCLOSE_NULLIFIER_INDEX cc),
           credentialSubject = [],
           proof_field = \<lparr> value_proof = p, value_publicSignals = ps \<rparr>,
           error_field = Inl err \<rparr>
   \<and> (\<exists>n. toBigInt env (str_at ps (VC_AND_DISCLOSE_USER_IDENTIFIER_INDEX cc)) = Inr n
        \<and> castToUserIdentifier env n (user_identifier_type this) = Inr (rq_user_identifier rq))"
  using request_user_identifier [of cc rdt env this p ps rq]
  by (simp add: verify_of_request attestation_def)

theorem verify_verifier_throws_witness:
  "verification_request sample_constants sample_types reverting_env sample_verifier
     sample_proof sample_signals = Inr sample_request
   \<and> verifyAll reverting_env (rq_timestamp sample_request) (rq_proof sample_request)
       (rq_types sample_request) = Inl (Error ''execution reverted'')
   \<and> verify sample_constants sample_types reverting_env sample_verifier
       sample_proof sample_signals =
      Inr \<lparr> isValid = False,
            isValidDetails =
              \<lparr> isValidScope = False, isValidAttestationId = False,
                isValidProof = False, isValidNationality = False \<rparr>,
            userId = ''user-5'',
            application = ''0xAB12'',
            nullifier = Str ''900'',
            credentialSubject = [],
            proof_field = \<lparr> value_proof = sample_proof, value_publicSignals = sample_signals \<rparr>,
            error_field = Inl (Error ''execution reverted'') \<rparr>"
proof -
  have rq: "verification_request sample_constants sample_types reverting_env sample_verifier
     sample_proof sample_signals = Inr sample_request"
    by (simp add: sample_defs verify_defs)
  have call: "verifyAll reverting_env (rq_timestamp sample_request) (rq_proof sample_request)
       (rq_types sample_request) = Inl (Error ''execution reverted'')"
    by (simp add: reverting_env_def)
  have vals: "rq_user_identifier sample_request = ''user-5''"
    "scope sample_verifier = ''0xAB12''"
    "str_at sample_signals (VC_AND_DISCLOSE_NULLIFIER_INDEX sample_constants) = Str ''900''"
    by (simp_all add: sample_defs str_at_def)
  from verify_verifier_throws [OF rq call] rq call vals
  show ?thesis by simp
qed

text \<open>
  C10. When the Verifier call returns a response, the decoding stringifies the
  \<^verbatim>\<open>older_than\<close> entry and the three OFAC entries of the response whatever the
  configuration is. So \<^verbatim>\<open>verify\<close> returns an outcome exactly when the response holds
  a value other than \<^verbatim>\<open>undefined\<close> and \<^verbatim>\<open>null\<close> at each of these four indices, and
  the outcome then holds their renderings; if one of them is missing \<^verbatim>\<open>verify\<close>
  ends in a TypeError.
\<close>

theorem decode_reads_optional_fields:
  "verification_request cc rdt env this p ps = Inr rq \<Longrightarrow>
   verifyAll env (rq_timestamp rq) (rq_proof rq) (rq_types rq) = Inr result \<Longrightarrow>
   ((\<exists>out. verify cc rdt env this p ps = Inr out) \<longleftrightarrow>
      (\<forall>v \<in> {val_at (result_0 result) (older_than rdt),
              val_at (result_0 result) (passport_no_ofac rdt),
              val_at (result_0 result) (name_and_dob_ofac rdt),
              val_at (result_0 result) (name_and_yob_ofac rdt)}.
         v \<noteq> Undefined \<and> v \<noteq> Null))
   \<and> ((\<exists>v \<in> {val_at (result_0 result) (older_than rdt),
              val_at (result_0 result) (passport_no_ofac rdt),
              val_at (result_0 result) (name_and_dob_ofac rdt),
              val_at (result_0 result) (name_and_yob_ofac rdt)}.
         v = Undefined \<or> v = Null) \<longrightarrow>
       verify cc rdt env this p ps = Inl TypeError)
   \<and> (verify cc rdt env this p ps = Inr out \<longrightarrow>
       (\<exists>s1 s2 s3 s4.
          toString (val_at (result_0 result) (older_than rdt)) = Inr s1
          \<and> toString (val_at (result_0 result) (passport_no_ofac rdt)) = Inr s2
          \<and> toString (val_at (result_0 result) (name_and_dob_ofac rdt)) = Inr s3
          \<and> toString (val_at (result_0 result) (name_and_yob_ofac rdt)) = Inr s4
          \<and> map_of (credentialSubject out) ''older_than'' = Some (Str s1)
          \<and> map_of (credentialSubject out) ''passport_no_ofac'' = Some (Bool (s2 = ''1''))
          \<and> map_of (credentialSubject out) ''name_and_dob_ofac'' = Some (Bool (s3 = ''1''))
          \<and> map_of (credentialSubject out) ''name_and_yob_ofac'' = Some (Bool (s4 = ''1''))))"
proof -
  assume rq: "verification_request cc rdt env this p ps = Inr rq"
    and call: "verifyAll env (rq_timestamp rq) (rq_proof rq) (rq_types rq) = Inr result"
  have v: "verify cc rdt env this p ps =
      attestation cc rdt env this p ps (rq_user_identifier rq) (Inr result)"
    using verify_of_request [OF rq] call by simp
  from decode_dichotomy [of result rdt cc env this ps] show ?thesis
  proof (elim disjE conjE exE)
    fix subject s1 s2 s3 s4
    assume present: "\<forall>v \<in> {val_at (result_0 result) (older_than rdt),
              val_at (result_0 result) (passport_no_ofac rdt),
              val_at (result_0 result) (name_and_dob_ofac rdt),
              val_at (result_0 result) (name_and_yob_ofac rdt)}.
         v \<noteq> Undefined \<and> v \<noteq> Null"
      and sub: "credentialSubject_of cc rdt env this ps result = Inr subject"
      and s: "toString (val_at (result_0 result) (older_than rdt)) = Inr s1"
        "toString (val_at (result_0 result) (passport_no_ofac rdt)) = Inr s2"
        "toString (val_at (result_0 result) (name_and_dob_ofac rdt)) = Inr s3"
        "toString (val_at (result_0 result) (name_and_yob_ofac rdt)) = Inr s4"
      and m: "map_of subject ''older_than'' = Some (Str s1)"
        "map_of subject ''passport_no_ofac'' = Some (Bool (s2 = ''1''))"
        "map_of subject ''name_and_dob_ofac'' = Some (Bool (s3 = ''1''))"
        "map_of subject ''name_and_yob_ofac'' = Some (Bool (s4 = ''1''))"
    from attestation_decode_ok [OF sub, of p "rq_user_identifier rq"]
    obtain out' where o: "verify cc rdt env this p ps = Inr out'"
      "credentialSubject out' = subject"
      using v by auto
    have "\<exists>out. verify cc rdt env this p ps = Inr out" using o by blast
    moreover have "verify cc rdt env this p ps = Inr out \<longrightarrow> credentialSubject out = subject"
      using o by auto
    ultimately show ?thesis using present s m by auto
  next
    assume absent: "\<not> (\<forall>v \<in> {val_at (result_0 result) (older_than rdt),
              val_at (result_0 result) (passport_no_ofac rdt),
              val_at (result_0 result) (name_and_dob_ofac rdt),
              val_at (result_0 result) (name_and_yob_ofac rdt)}.
         v \<noteq> Undefined \<and> v \<noteq> Null)"
      and err: "credentialSubject_of cc rdt env this ps result = Inl TypeError"
    have "verify cc rdt env this p ps = Inl TypeError"
      using attestation_decode_error [OF err] v by simp
    then show ?thesis using absent by auto
  qed
qed

theorem decode_reads_optional_fields_witness:
  "verification_request sample_constants sample_types mandatory_only_env sample_verifier
     sample_proof sample_signals = Inr sample_request
   \<and> rq_types sample_request = [0, 1, 2, 3, 4, 5, 6]
   \<and> verifyAll mandatory_only_env (rq_timestamp sample_request) (rq_proof sample_request)
       (rq_types sample_request) = Inr mandatory_only_result
   \<and> val_at (result_0 mandatory_only_result) (older_than sample_types) = Undefined
   \<and> verify sample_constants sample_types mandatory_only_env sample_verifier
       sample_proof sample_signals = Inl TypeError
   \<and> verification_request sample_constants sample_types sample_env sample_verifier
       sample_proof sample_signals = Inr sample_request
   \<and> verifyAll sample_env (rq_timestamp sample_request) (rq_proof sample_request)
       (rq_types sample_request) = Inr sample_result
   \<and> verify sample_constants sample_types sample_env sample_verifier
       sample_proof sample_signals = Inr sample_outcome
   \<and> map_of (credentialSubject sample_outcome) ''older_than'' = Some (Str ''18'')
   \<and> map_of (credentialSubject sample_outcome) ''passport_no_ofac'' = Some (Bool True)
   \<and> map_of (credentialSubject sample_outcome) ''name_and_dob_ofac'' = Some (Bool False)
   \<and> map_of (credentialSubject sample_outcome) ''name_and_yob_ofac'' = Some (Bool True)"
proof -
  have rq: "verification_request sample_constants sample_types mandatory_only_env
     sample_verifier sample_proof sample_signals = Inr sample_request"
    by (simp add: sample_defs verify_defs)
  have call: "verifyAll mandatory_only_env (rq_timestamp sample_request)
       (rq_proof sample_request) (rq_types sample_request) = Inr mandatory_only_result"
    by (simp add: mandatory_only_env_def)
  have gone: "val_at (result_0 mandatory_only_result) (older_than sample_types) = Undefined"
    by (simp add: sample_defs val_at_def)
  have tys: "rq_types sample_request = [0, 1, 2, 3, 4, 5, 6]"
    by (simp add: sample_request_def)
  have rq0: "verification_request sample_constants sample_types sample_env sample_verifier
       sample_proof sample_signals = Inr sample_request"
    by (simp add: sample_defs verify_defs)
  have call0: "verifyAll sample_env (rq_timestamp sample_request) (rq_proof sample_request)
       (rq_types sample_request) = Inr sample_result"
    by (simp add: sample_env_def)
  have out0: "verify sample_constants sample_types sample_env sample_verifier
       sample_proof sample_signals = Inr sample_outcome"
    by (simp add: sample_defs verify_defs)
  have subj: "map_of (credentialSubject sample_outcome) ''older_than'' = Some (Str ''18'')"
    "map_of (credentialSubject sample_outcome) ''passport_no_ofac'' = Some (Bool True)"
    "map_of (credentialSubject sample_outcome) ''name_and_dob_ofac'' = Some (Bool False)"
    "map_of (credentialSubject sample_outcome) ''name_and_yob_ofac'' = Some (Bool True)"
    by (simp_all add: sample_outcome_def)
  from decode_reads_optional_fields [OF rq call]
  have "verify sample_constants sample_types mandatory_only_env sample_verifier
       sample_proof sample_signals = Inl TypeError"
    using gone by simp
  moreover note decode_reads_optional_fields [OF rq0 call0, where out = sample_outcome]
  ultimately show ?thesis
    using rq call gone tys rq0 call0 out0 subj by simp
qed

end
